theory Spec2Isabelle
  imports Complex_Main
begin

section \<open>Python values\<close>

text \<open>
  The rate limiter is Python. Its integers are unbounded (\<open>int\<close>), its strings are
  modelled as ASCII texts (\<open>string\<close>), and its floats are modelled as exact reals:
  rounding, infinities and NaN are outside the model. A number that may be an \<open>int\<close> or a
  \<open>float\<close> at run time (the token count, after \<open>min(float, int)\<close>) keeps its tag,
  because \<open>str\<close> prints the two differently.
\<close>

datatype error = ValueError | ZeroDivisionError | KeyError | NonFiniteFloat
  \<comment> \<open>\<open>NonFiniteFloat\<close> is no Python exception: it marks the texts \<open>inf\<close> and \<open>nan\<close>,
      which \<open>float()\<close> reads as values that are no real numbers.\<close>

datatype pynum = PInt int | PFloat real

fun num_val :: "pynum \<Rightarrow> real" where
  "num_val (PInt i) = of_int i"
| "num_val (PFloat x) = x"

text \<open>\<open>min(a, b)\<close> returns \<open>a\<close> unless \<open>b < a\<close>.\<close>

definition py_min :: "pynum \<Rightarrow> pynum \<Rightarrow> pynum" where
  "py_min a b = (if num_val b < num_val a then b else a)"

text \<open>\<open>x -= 1\<close>: an \<open>int\<close> stays an \<open>int\<close>, a \<open>float\<close> stays a \<open>float\<close>.\<close>

fun num_sub1 :: "pynum \<Rightarrow> pynum" where
  "num_sub1 (PInt i) = PInt (i - 1)"
| "num_sub1 (PFloat x) = PFloat (x - 1)"

text \<open>\<open>int(x)\<close> of a float truncates towards zero.\<close>

definition int_of_float :: "real \<Rightarrow> int" where
  "int_of_float x = (if 0 \<le> x then \<lfloor>x\<rfloor> else - \<lfloor>- x\<rfloor>)"

subsection \<open>Texts\<close>

text \<open>
  The store holds Python strings. The text that \<open>str\<close> gives for a float depends on the
  binary representation, so it is kept symbolic: \<open>FloatRepr x\<close> is \<open>str(x)\<close> for the
  float \<open>x\<close>. \<open>float()\<close> reads it back as \<open>x\<close>; \<open>int()\<close> rejects it, since that text
  always has a point, an exponent or letters. Every other text is \<open>Text s\<close>.
\<close>

datatype pystr = Text string | FloatRepr real

definition is_space :: "char \<Rightarrow> bool" where
  "is_space c = ((of_char c :: nat) \<in> {9, 10, 11, 12, 13, 28, 29, 30, 31, 32})"

definition strip :: "string \<Rightarrow> string" where
  "strip s = rev (dropWhile is_space (rev (dropWhile is_space s)))"

definition is_digit :: "char \<Rightarrow> bool" where
  "is_digit c = (48 \<le> (of_char c :: nat) \<and> (of_char c :: nat) \<le> 57)"

definition digit_val :: "char \<Rightarrow> nat" where
  "digit_val c = of_char c - 48"

definition lower_char :: "char \<Rightarrow> char" where
  "lower_char c =
     (case map_of (zip ''ABCDEFGHIJKLMNOPQRSTUVWXYZ'' ''abcdefghijklmnopqrstuvwxyz'') c of
        Some l \<Rightarrow> l
      | None \<Rightarrow> c)"

definition lower :: "string \<Rightarrow> string" where
  "lower s = map lower_char s"

definition ascii :: "string \<Rightarrow> bool" where
  "ascii s = list_all (\<lambda>c. (of_char c :: nat) < 128) s"

text \<open>
  \<open>digitpart\<close> reads \<open>digit (["_"] digit)*\<close>, the digit groups that \<open>int()\<close> and
  \<open>float()\<close> accept. It returns the value and the number of digits read. The flag says
  whether the character before was a digit.
\<close>

fun digitpart :: "string \<Rightarrow> nat \<Rightarrow> nat \<Rightarrow> bool \<Rightarrow> (nat \<times> nat) option" where
  "digitpart [] acc k prev = (if prev then Some (acc, k) else None)"
| "digitpart (c # cs) acc k prev =
     (if is_digit c then digitpart cs (10 * acc + digit_val c) (Suc k) True
      else if c = CHR ''_'' \<and> prev \<and> cs \<noteq> [] then digitpart cs acc k False
      else None)"

definition unsigned :: "string \<Rightarrow> bool \<times> string" where
  "unsigned s = (case s of
       c # r \<Rightarrow> if c = CHR ''-'' then (True, r) else if c = CHR ''+'' then (False, r) else (False, s)
     | [] \<Rightarrow> (False, s))"

text \<open>
  \<open>int(s)\<close> of a string: surrounding whitespace, an optional sign, digit groups.
  \<open>None\<close> is the \<open>ValueError\<close>. The interpreter's limit on the length of the digit
  string is not modelled.
\<close>

fun int_str :: "pystr \<Rightarrow> int option" where
  "int_str (FloatRepr x) = None"
| "int_str (Text s) =
     (case unsigned (strip s) of (neg, r) \<Rightarrow>
        (case digitpart r 0 0 False of
           None \<Rightarrow> None
         | Some (n, k) \<Rightarrow> Some (if neg then - int n else int n)))"

declare int_str.simps [simp del]

text \<open>\<open>str(i)\<close> of an integer.\<close>

definition digit_char :: "nat \<Rightarrow> char" where
  "digit_char d = ''0123456789'' ! d"

fun str_nat :: "nat \<Rightarrow> string" where
  "str_nat n = (if n < 10 then [digit_char n]
                else str_nat (n div 10) @ [digit_char (n mod 10)])"

declare str_nat.simps [simp del]

definition str_int :: "int \<Rightarrow> string" where
  "str_int i = (if i < 0 then CHR ''-'' # str_nat (nat (- i)) else str_nat (nat i))"

fun str_num :: "pynum \<Rightarrow> pystr" where
  "str_num (PInt i) = Text (str_int i)"
| "str_num (PFloat x) = FloatRepr x"

text \<open>
  \<open>float(s)\<close> of a string: an optional sign, then \<open>inf\<close>, \<open>infinity\<close> or \<open>nan\<close> in any
  case, or a decimal number \<open>[digitpart] ["." [digitpart]] [("e"|"E") [sign] digitpart]\<close>
  with at least one digit before the exponent. The value is exact.
\<close>

definition exponent :: "string \<Rightarrow> int option" where
  "exponent s = (case unsigned s of (neg, r) \<Rightarrow>
       (case digitpart r 0 0 False of
          None \<Rightarrow> None
        | Some (n, k) \<Rightarrow> Some (if neg then - int n else int n)))"

definition mantissa :: "string \<Rightarrow> real option" where
  "mantissa s =
     (let ip = takeWhile (\<lambda>c. c \<noteq> CHR ''.'') s; rest = dropWhile (\<lambda>c. c \<noteq> CHR ''.'') s in
      if rest = [] then map_option (\<lambda>(n, k). of_nat n) (digitpart ip 0 0 False)
      else let fp = tl rest in
        if ip = [] then map_option (\<lambda>(n, k). of_nat n / 10 ^ k) (digitpart fp 0 0 False)
        else (case digitpart ip 0 0 False of
                None \<Rightarrow> None
              | Some (n, k) \<Rightarrow>
                  if fp = [] then Some (of_nat n)
                  else map_option (\<lambda>(m, j). of_nat n + of_nat m / 10 ^ j) (digitpart fp 0 0 False)))"

definition is_e :: "char \<Rightarrow> bool" where
  "is_e c = (c = CHR ''e'' \<or> c = CHR ''E'')"

definition pow10 :: "int \<Rightarrow> real" where
  "pow10 e = (if 0 \<le> e then 10 ^ nat e else 1 / 10 ^ nat (- e))"

fun float_str :: "pystr \<Rightarrow> error + real" where
  "float_str (FloatRepr x) = Inr x"
| "float_str (Text s) =
     (case unsigned (strip s) of (neg, r) \<Rightarrow>
        if lower r \<in> {''inf'', ''infinity'', ''nan''} then Inl NonFiniteFloat
        else let m = takeWhile (\<lambda>c. \<not> is_e c) r; rest = dropWhile (\<lambda>c. \<not> is_e c) r in
          (case mantissa m of
             None \<Rightarrow> Inl ValueError
           | Some x \<Rightarrow>
               if rest = [] then Inr (if neg then - x else x)
               else (case exponent (tl rest) of
                       None \<Rightarrow> Inl ValueError
                     | Some e \<Rightarrow> Inr ((if neg then - x else x) * pow10 e))))"

declare float_str.simps [simp del]

section \<open>utils.py\<close>

definition get_interval_in_seconds :: "string \<Rightarrow> int" where
  "get_interval_in_seconds interval =
     (let interval = lower interval in
      if interval = ''second'' then 1
      else if interval = ''minute'' then 60
      else if interval = ''hour'' then 60 * 60
      else if interval = ''day'' then 24 * 60 * 60
      else if interval = ''week'' then 7 * 24 * 60 * 60
      else if interval = ''month'' then 30 * 24 * 60 * 60
      else 60)"

section \<open>storage/memory_storage.py\<close>

text \<open>
  \<open>MemoryStorage\<close> holds two dictionaries: the values, and for some keys the time (in
  seconds, a float) at which the key expires. Every method that reads the clock takes the
  reading of \<open>time.time()\<close> as its last argument. The methods are coroutines that never
  suspend, so each runs to its end without interleaving. The remote store of
  \<open>redis_storage.py\<close> forwards every call to a server outside the repository and is not
  modelled; the algorithms below run against the in-process store.
\<close>

record memory_storage =
  data :: "string \<rightharpoonup> pystr"
  expirations :: "string \<rightharpoonup> real"

definition MemoryStorage_init :: memory_storage where
  "MemoryStorage_init = \<lparr>data = Map.empty, expirations = Map.empty\<rparr>"

definition MemoryStorage_get :: "memory_storage \<Rightarrow> string \<Rightarrow> real \<Rightarrow> pystr option \<times> memory_storage" where
  "MemoryStorage_get s key t =
     (case data s key of
        Some v \<Rightarrow>
          (case expirations s key of
             Some e \<Rightarrow>
               if e \<le> t
               then (None, s\<lparr>data := (data s)(key := None),
                               expirations := (expirations s)(key := None)\<rparr>)
               else (Some v, s)
           | None \<Rightarrow> (Some v, s))
      | None \<Rightarrow> (None, s))"

text \<open>\<open>if ttl:\<close> is false for \<open>None\<close> and for \<open>0\<close>. The method always returns \<open>True\<close>.\<close>

definition MemoryStorage_set ::
  "memory_storage \<Rightarrow> string \<Rightarrow> pystr \<Rightarrow> int option \<Rightarrow> real \<Rightarrow> memory_storage" where
  "MemoryStorage_set s key v ttl t =
     (let s1 = s\<lparr>data := (data s)(key \<mapsto> v)\<rparr> in
      case ttl of
        Some n \<Rightarrow>
          if n \<noteq> 0 then s1\<lparr>expirations := (expirations s1)(key \<mapsto> t + of_int n)\<rparr>
          else if key \<in> dom (expirations s1)
          then s1\<lparr>expirations := (expirations s1)(key := None)\<rparr> else s1
      | None \<Rightarrow>
          if key \<in> dom (expirations s1)
          then s1\<lparr>expirations := (expirations s1)(key := None)\<rparr> else s1)"

text \<open>
  \<open>incr\<close> reads the key, parses it with \<open>int()\<close> and writes the successor back with no
  TTL; a text that does not parse is replaced by \<open>"1"\<close>.
\<close>

definition MemoryStorage_incr :: "memory_storage \<Rightarrow> string \<Rightarrow> real \<Rightarrow> int \<times> memory_storage" where
  "MemoryStorage_incr s key t =
     (case MemoryStorage_get s key t of (r, s1) \<Rightarrow>
        let v = (case r of None \<Rightarrow> Text ''0'' | Some v \<Rightarrow> v) in
        (case int_str v of
           Some n \<Rightarrow> (n + 1, MemoryStorage_set s1 key (Text (str_int (n + 1))) None t)
         | None \<Rightarrow> (1, MemoryStorage_set s1 key (Text ''1'') None t)))"

definition MemoryStorage_expire :: "memory_storage \<Rightarrow> string \<Rightarrow> int \<Rightarrow> real \<Rightarrow> int \<times> memory_storage" where
  "MemoryStorage_expire s key ttl t =
     (if key \<in> dom (data s)
      then (1, s\<lparr>expirations := (expirations s)(key \<mapsto> t + of_int ttl)\<rparr>)
      else (0, s))"

definition MemoryStorage_delete :: "memory_storage \<Rightarrow> string \<Rightarrow> int \<times> memory_storage" where
  "MemoryStorage_delete s key =
     (if key \<in> dom (data s)
      then (1, s\<lparr>data := (data s)(key := None),
                   expirations := (if key \<in> dom (expirations s)
                                   then (expirations s)(key := None) else expirations s)\<rparr>)
      else (0, s))"

text \<open>
  One pass of the background task \<open>clean_expired_keys\<close>: every key whose expiration is
  not after \<open>now\<close> is deleted from both dictionaries. The methods keep every key that has
  an expiration in the data as well (\<open>expirations_in_data\<close> and
  \<open>expirations_in_data_incr\<close> below), so the \<open>del\<close> of the pass finds its key.
\<close>

definition clean_expired_keys :: "memory_storage \<Rightarrow> real \<Rightarrow> memory_storage" where
  "clean_expired_keys s now =
     \<lparr>data = (\<lambda>k. case expirations s k of
                     Some e \<Rightarrow> if e \<le> now then None else data s k
                   | None \<Rightarrow> data s k),
      expirations = (\<lambda>k. case expirations s k of
                            Some e \<Rightarrow> if e \<le> now then None else Some e
                          | None \<Rightarrow> None)\<rparr>"

section \<open>Policies and decisions\<close>

text \<open>
  The options dictionaries are records of optional entries, one field per key the code
  reads. A per-call or per-route dictionary has the three policy keys; the limiter's own
  configuration has two more. A dictionary is taken to hold no other keys, so the empty
  dictionary is the record whose entries are all absent.
\<close>

record policy =
  opt_rate :: "int option"
  opt_interval :: "string option"
  opt_algorithm :: "string option"

record limiter_options = policy +
  opt_client_identifier :: "string option"
  opt_endpoint_overrides :: "(string \<rightharpoonup> policy) option"

definition empty_policy :: policy where
  "empty_policy = \<lparr>opt_rate = None, opt_interval = None, opt_algorithm = None\<rparr>"

text \<open>\<open>options or {}\<close>: \<open>None\<close> and the empty dictionary both give the empty dictionary.\<close>

definition or_empty :: "policy option \<Rightarrow> policy" where
  "or_empty options = (case options of None \<Rightarrow> empty_policy | Some p \<Rightarrow> p)"

definition get_rate :: "policy \<Rightarrow> int" where
  "get_rate options = (case opt_rate options of None \<Rightarrow> 60 | Some r \<Rightarrow> r)"

definition get_interval :: "policy \<Rightarrow> string" where
  "get_interval options = (case opt_interval options of None \<Rightarrow> ''minute'' | Some i \<Rightarrow> i)"

record decision =
  allowed :: bool
  limit :: int
  remaining :: int
  reset :: int
  retry_after :: int

section \<open>algorithms/token_bucket.py\<close>

text \<open>
  A check reads the clock six times: in the two \<open>get\<close> calls, for the default of the last
  update, for \<open>now\<close>, and in the two \<open>set\<close> calls. \<open>clk i\<close> is the \<open>i\<close>-th reading, in
  seconds. A raised exception leaves the store as it was at that point, so every function
  returns the store together with its result.
\<close>

definition TokenBucket_get_bucket_state ::
  "memory_storage \<Rightarrow> string \<Rightarrow> string \<Rightarrow> int \<Rightarrow> (nat \<Rightarrow> real) \<Rightarrow> memory_storage \<times> (error + real \<times> int)" where
  "TokenBucket_get_bucket_state s bucket_key last_update_key rate clk =
     (case MemoryStorage_get s bucket_key (clk 0) of (current_tokens, s1) \<Rightarrow>
      case MemoryStorage_get s1 last_update_key (clk 1) of (last_update, s2) \<Rightarrow>
        (case (case current_tokens of None \<Rightarrow> Inr (of_int rate) | Some v \<Rightarrow> float_str v) of
           Inl e \<Rightarrow> (s2, Inl e)
         | Inr tokens \<Rightarrow>
             (case last_update of
                None \<Rightarrow> (s2, Inr (tokens, int_of_float (clk 2 * 1000)))
              | Some v \<Rightarrow>
                  (case int_str v of
                     None \<Rightarrow> (s2, Inl ValueError)
                   | Some l \<Rightarrow> (s2, Inr (tokens, l))))))"

definition TokenBucket_store_bucket_state ::
  "memory_storage \<Rightarrow> string \<Rightarrow> string \<Rightarrow> pynum \<Rightarrow> int \<Rightarrow> int \<Rightarrow> (nat \<Rightarrow> real) \<Rightarrow> memory_storage" where
  "TokenBucket_store_bucket_state s bucket_key last_update_key tokens update_time ttl clk =
     (let s1 = MemoryStorage_set s bucket_key (str_num tokens) (Some ttl) (clk 4) in
      MemoryStorage_set s1 last_update_key (Text (str_int update_time)) (Some ttl) (clk 5))"

definition TokenBucket_check ::
  "memory_storage \<Rightarrow> string \<Rightarrow> policy \<Rightarrow> (nat \<Rightarrow> real) \<Rightarrow> memory_storage \<times> (error + decision)" where
  "TokenBucket_check s identifier options clk =
     (let rate = get_rate options;
          interval_seconds = get_interval_in_seconds (get_interval options);
          bucket_key = ''tb:'' @ identifier;
          last_update_key = ''tb:'' @ identifier @ '':last''
      in case TokenBucket_get_bucket_state s bucket_key last_update_key rate clk of
           (s2, Inl e) \<Rightarrow> (s2, Inl e)
         | (s2, Inr (current_tokens, last_update)) \<Rightarrow>
             let now = int_of_float (clk 3 * 1000);
                 elapsed_ms = now - last_update;
                 refill_rate = (of_int rate :: real) / of_int interval_seconds;
                 refill_tokens = (of_int elapsed_ms / 1000) * refill_rate;
                 new_tokens = py_min (PFloat (current_tokens + refill_tokens)) (PInt rate);
                 allowed = (1 \<le> num_val new_tokens);
                 new_tokens = (if allowed then num_sub1 new_tokens else new_tokens);
                 s3 = TokenBucket_store_bucket_state s2 bucket_key last_update_key
                        new_tokens now interval_seconds clk
             in if refill_rate = 0 then (s3, Inl ZeroDivisionError)
                else
                  let ms_until_refill =
                        (if allowed then ((of_int rate - num_val new_tokens) / refill_rate) * 1000
                         else ((1 - num_val new_tokens) / refill_rate) * 1000)
                  in (s3, Inr \<lparr>allowed = allowed, limit = rate,
                                remaining = int_of_float (num_val new_tokens),
                                reset = int_of_float (ms_until_refill / 1000),
                                retry_after = (if allowed then 0
                                               else int_of_float (ms_until_refill / 1000))\<rparr>))"

definition TokenBucket_reset ::
  "memory_storage \<Rightarrow> string \<Rightarrow> policy \<Rightarrow> (nat \<Rightarrow> real) \<Rightarrow> memory_storage \<times> bool" where
  "TokenBucket_reset s identifier options clk =
     (let rate = get_rate options;
          bucket_key = ''tb:'' @ identifier;
          last_update_key = ''tb:'' @ identifier @ '':last'';
          s1 = MemoryStorage_set s bucket_key (Text (str_int rate)) None (clk 0);
          s2 = MemoryStorage_set s1 last_update_key
                 (Text (str_int (int_of_float (clk 0 * 1000)))) None (clk 1)
      in (s2, True))"

section \<open>algorithms/sliding_window.py\<close>

text \<open>
  A check reads the clock for \<open>now\<close> (reading 0), in the two \<open>get\<close> calls (1 and 2), in
  \<open>incr\<close> (3) and in \<open>expire\<close> (4).
\<close>

definition SlidingWindow_get_window_counts ::
  "memory_storage \<Rightarrow> string \<Rightarrow> string \<Rightarrow> (nat \<Rightarrow> real) \<Rightarrow> memory_storage \<times> (error + int \<times> int)" where
  "SlidingWindow_get_window_counts s current_key previous_key clk =
     (case MemoryStorage_get s current_key (clk 1) of (current_count, s1) \<Rightarrow>
      case MemoryStorage_get s1 previous_key (clk 2) of (previous_count, s2) \<Rightarrow>
        (case (case current_count of None \<Rightarrow> Some 0 | Some v \<Rightarrow> int_str v) of
           None \<Rightarrow> (s2, Inl ValueError)
         | Some c \<Rightarrow>
             (case (case previous_count of None \<Rightarrow> Some 0 | Some v \<Rightarrow> int_str v) of
                None \<Rightarrow> (s2, Inl ValueError)
              | Some p \<Rightarrow> (s2, Inr (c, p)))))"

definition SlidingWindow_check ::
  "memory_storage \<Rightarrow> string \<Rightarrow> policy \<Rightarrow> (nat \<Rightarrow> real) \<Rightarrow> memory_storage \<times> (error + decision)" where
  "SlidingWindow_check s identifier options clk =
     (let rate = get_rate options;
          interval_seconds = get_interval_in_seconds (get_interval options);
          now = int_of_float (clk 0);
          current_window = now div interval_seconds * interval_seconds;
          previous_window = current_window - interval_seconds;
          current_window_key = ''sw:'' @ identifier @ '':'' @ str_int current_window;
          previous_window_key = ''sw:'' @ identifier @ '':'' @ str_int previous_window
      in case SlidingWindow_get_window_counts s current_window_key previous_window_key clk of
           (s2, Inl e) \<Rightarrow> (s2, Inl e)
         | (s2, Inr (current_count, previous_count)) \<Rightarrow>
             let window_position = (of_int (now mod interval_seconds) :: real) / of_int interval_seconds;
                 weighted_count = of_int current_count + of_int previous_count * (1 - window_position);
                 allowed = (weighted_count < of_int rate);
                 s3 = (if allowed
                       then snd (MemoryStorage_expire
                                   (snd (MemoryStorage_incr s2 current_window_key (clk 3)))
                                   current_window_key (interval_seconds * 2) (clk 4))
                       else s2);
                 remaining = max 0 (int_of_float (of_int rate - weighted_count
                                                   - (if allowed then 1 else 0)));
                 reset = interval_seconds - (now mod interval_seconds)
             in (s3, Inr \<lparr>allowed = allowed, limit = rate, remaining = remaining,
                           reset = reset, retry_after = (if allowed then 0 else reset)\<rparr>))"

text \<open>
  \<open>reset\<close> takes its interval from the call's options and, failing that, from the options
  the algorithm object was built with (the limiter's).
\<close>

definition SlidingWindow_reset ::
  "policy \<Rightarrow> memory_storage \<Rightarrow> string \<Rightarrow> policy \<Rightarrow> (nat \<Rightarrow> real) \<Rightarrow> memory_storage \<times> bool" where
  "SlidingWindow_reset self_options s identifier options clk =
     (let interval = (case opt_interval options of
                        Some i \<Rightarrow> i
                      | None \<Rightarrow> get_interval self_options);
          interval_seconds = get_interval_in_seconds interval;
          now = int_of_float (clk 0);
          current_window = now div interval_seconds * interval_seconds;
          previous_window = current_window - interval_seconds;
          current_window_key = ''sw:'' @ identifier @ '':'' @ str_int current_window;
          previous_window_key = ''sw:'' @ identifier @ '':'' @ str_int previous_window;
          s1 = MemoryStorage_set s current_window_key (Text ''0'') None (clk 1);
          s2 = MemoryStorage_set s1 previous_window_key (Text ''0'') None (clk 2)
      in (s2, True))"

section \<open>Requests and client information (utils.py)\<close>

text \<open>
  \<open>normalize_client_info\<close> looks at a request object through \<open>getattr\<close> and
  \<open>hasattr\<close>. The record has one optional field per attribute it looks for:
  \<open>client_host\<close> is \<open>request.client.host\<close> (FastAPI), \<open>remote_addr\<close> the attribute of
  Flask, \<open>user\<close> the user object with its optional \<open>id\<close>, and \<open>path\<close> and \<open>url\<close> the
  two places a path can come from. A user id is an integer or a string.
\<close>

datatype user_id = IdInt int | IdStr string

fun id_truthy :: "user_id \<Rightarrow> bool" where
  "id_truthy (IdInt i) = (i \<noteq> 0)"
| "id_truthy (IdStr s) = (s \<noteq> [])"

fun id_str :: "user_id \<Rightarrow> string" where
  "id_str (IdInt i) = str_int i"
| "id_str (IdStr s) = s"

datatype url = UrlObject string | UrlString string

record request =
  client_host :: "string option"
  remote_addr :: "string option"
  headers :: "string \<rightharpoonup> string"
  user :: "user_id option option"
  path :: "string option"
  url :: "url option"

record client_info =
  ci_ip :: string
  ci_user_id :: "user_id option"
  ci_api_key :: "string option"
  ci_user_agent :: string
  ci_path :: string

text \<open>
  The address taken from the headers: \<open>x-forwarded-for\<close>, else \<open>x-real-ip\<close>, else the
  text \<open>unknown\<close>; of a comma-separated chain, the first entry.
\<close>

definition header_ip :: "(string \<rightharpoonup> string) \<Rightarrow> string" where
  "header_ip hs =
     (let ip = (case hs ''x-forwarded-for'' of
                  Some f \<Rightarrow> f
                | None \<Rightarrow> (case hs ''x-real-ip'' of Some r \<Rightarrow> r | None \<Rightarrow> ''unknown''))
      in if ip \<noteq> [] \<and> CHR '','' \<in> set ip
         then strip (takeWhile (\<lambda>c. c \<noteq> CHR '','') ip) else ip)"

definition normalize_client_info :: "request \<Rightarrow> client_info" where
  "normalize_client_info req =
     (let ip = (case client_host req of
                  Some h \<Rightarrow> h
                | None \<Rightarrow>
                    (case remote_addr req of
                       Some a \<Rightarrow> if a \<noteq> [] then a else header_ip (headers req)
                     | None \<Rightarrow> header_ip (headers req)));
          user_id = (case user req of Some u \<Rightarrow> u | None \<Rightarrow> None);
          path = (case path req of
                    Some p \<Rightarrow> p
                  | None \<Rightarrow> (case url req of
                               Some (UrlObject p) \<Rightarrow> p
                             | Some (UrlString u) \<Rightarrow> u
                             | None \<Rightarrow> ''/''))
      in \<lparr>ci_ip = ip, ci_user_id = user_id, ci_api_key = headers req ''x-api-key'',
          ci_user_agent = (case headers req ''user-agent'' of Some a \<Rightarrow> a | None \<Rightarrow> ''unknown''),
          ci_path = path\<rparr>)"

section \<open>limiter.py\<close>

text \<open>
  The metrics dictionary is a mutable object that \<open>get_metrics\<close> copies, so it lives in
  a heap of objects: the limiter holds its address. The dictionary always has the two keys
  \<open>__init__\<close> gives it. The store object is owned by the limiter alone and is kept by
  value.
\<close>

record metrics_dict =
  requests_total :: int
  throttled_total :: int

record heap =
  cells :: "nat \<Rightarrow> metrics_dict"
  next_addr :: nat

definition alloc :: "heap \<Rightarrow> metrics_dict \<Rightarrow> nat \<times> heap" where
  "alloc h d = (next_addr h, h\<lparr>cells := (cells h)(next_addr h := d), next_addr := Suc (next_addr h)\<rparr>)"

record limiter =
  options :: limiter_options
  storage :: memory_storage
  algorithm :: string
  metrics :: nat

definition RateLimiter_init :: "limiter_options \<Rightarrow> heap \<Rightarrow> limiter \<times> heap" where
  "RateLimiter_init opts h =
     (case alloc h \<lparr>requests_total = 0, throttled_total = 0\<rparr> of (a, h1) \<Rightarrow>
        (\<lparr>options = opts, storage = MemoryStorage_init,
          algorithm = (case opt_algorithm opts of None \<Rightarrow> ''token_bucket'' | Some a \<Rightarrow> a),
          metrics = a\<rparr>, h1))"

definition RateLimiter_get_client_identifier :: "limiter \<Rightarrow> request \<Rightarrow> string" where
  "RateLimiter_get_client_identifier self req =
     (let info = normalize_client_info req in
      case (case ci_user_id info of
              Some u \<Rightarrow> if id_truthy u \<and> opt_client_identifier (options self) = Some ''user_id''
                        then Some u else None
            | None \<Rightarrow> None) of
        Some u \<Rightarrow> ''user:'' @ id_str u
      | None \<Rightarrow>
          (case (case ci_api_key info of
                   Some k \<Rightarrow> if k \<noteq> [] then Some k else None
                 | None \<Rightarrow> None) of
             Some k \<Rightarrow> ''apikey:'' @ k
           | None \<Rightarrow> ''ip:'' @ ci_ip info))"

text \<open>
  \<open>options or self.options\<close>: the call's options unless they are \<open>None\<close> or empty, else
  the limiter's own dictionary, of which the algorithms read the policy keys. A route that
  has an entry in \<open>endpoint_overrides\<close> gets that entry instead, whole.
\<close>

definition effective_options :: "limiter \<Rightarrow> string \<Rightarrow> policy option \<Rightarrow> policy" where
  "effective_options self p opts =
     (let endpoint_overrides =
            (case opt_endpoint_overrides (options self) of None \<Rightarrow> Map.empty | Some m \<Rightarrow> m)
      in case endpoint_overrides p of
           Some ov \<Rightarrow> ov
         | None \<Rightarrow>
             (case opts of
                Some d \<Rightarrow> if d \<noteq> empty_policy then d else policy.truncate (options self)
              | None \<Rightarrow> policy.truncate (options self)))"

definition RateLimiter_check ::
  "limiter \<Rightarrow> heap \<Rightarrow> request \<Rightarrow> policy option \<Rightarrow> (nat \<Rightarrow> real) \<Rightarrow> (limiter \<times> heap) \<times> (error + decision)" where
  "RateLimiter_check self h req opts clk =
     (let m = cells h (metrics self);
          h1 = h\<lparr>cells := (cells h)(metrics self := m\<lparr>requests_total := requests_total m + 1\<rparr>)\<rparr>;
          identifier = RateLimiter_get_client_identifier self req;
          p = ci_path (normalize_client_info req);
          eff = effective_options self p opts
      in case (if algorithm self = ''sliding_window''
               then SlidingWindow_check (storage self) identifier eff clk
               else TokenBucket_check (storage self) identifier eff clk) of
           (s', Inl e) \<Rightarrow> ((self\<lparr>storage := s'\<rparr>, h1), Inl e)
         | (s', Inr result) \<Rightarrow>
             let m1 = cells h1 (metrics self);
                 h2 = (if \<not> allowed result
                       then h1\<lparr>cells := (cells h1)(metrics self :=
                                 m1\<lparr>throttled_total := throttled_total m1 + 1\<rparr>)\<rparr>
                       else h1)
             in ((self\<lparr>storage := s'\<rparr>, h2), Inr result))"

text \<open>
  \<open>reset\<close> looks the algorithm up by the name in the call's options, else by the
  limiter's; a name that is not in the table raises \<open>KeyError\<close>. It hands the call's
  options on as they are.
\<close>

definition RateLimiter_reset ::
  "limiter \<Rightarrow> string \<Rightarrow> policy option \<Rightarrow> (nat \<Rightarrow> real) \<Rightarrow> limiter \<times> (error + bool)" where
  "RateLimiter_reset self identifier opts clk =
     (let algorithm_name = (case opt_algorithm (or_empty opts) of
                              Some a \<Rightarrow> a
                            | None \<Rightarrow> algorithm self)
      in if algorithm_name = ''token_bucket''
         then (case TokenBucket_reset (storage self) identifier (or_empty opts) clk of
                 (s', r) \<Rightarrow> (self\<lparr>storage := s'\<rparr>, Inr r))
         else if algorithm_name = ''sliding_window''
         then (case SlidingWindow_reset (policy.truncate (options self)) (storage self)
                      identifier (or_empty opts) clk of
                 (s', r) \<Rightarrow> (self\<lparr>storage := s'\<rparr>, Inr r))
         else (self, Inl KeyError))"

text \<open>\<open>get_metrics\<close> returns \<open>dict(self.metrics)\<close>: a new object with the same entries.\<close>

definition RateLimiter_get_metrics :: "limiter \<Rightarrow> heap \<Rightarrow> nat \<times> heap" where
  "RateLimiter_get_metrics self h = alloc h (cells h (metrics self))"

section \<open>Identity signals\<close>

text \<open>
  The signals a request can carry, read off the request itself: the user id counts when
  the limiter is configured with \<open>client_identifier = user_id\<close> and the id is truthy, the
  API key when the header is there and not empty.
\<close>

definition user_signal :: "limiter \<Rightarrow> request \<Rightarrow> user_id option" where
  "user_signal self req =
     (if opt_client_identifier (options self) = Some ''user_id''
      then (case user req of
              Some (Some u) \<Rightarrow> if id_truthy u then Some u else None
            | _ \<Rightarrow> None)
      else None)"

definition api_key_signal :: "request \<Rightarrow> string option" where
  "api_key_signal req =
     (case headers req ''x-api-key'' of
        Some k \<Rightarrow> if k \<noteq> [] then Some k else None
      | None \<Rightarrow> None)"

definition no_signal :: "limiter \<Rightarrow> request \<Rightarrow> bool" where
  "no_signal self req =
     (user_signal self req = None \<and> api_key_signal req = None \<and> client_host req = None \<and>
      (remote_addr req = None \<or> remote_addr req = Some []) \<and>
      headers req ''x-forwarded-for'' = None \<and> headers req ''x-real-ip'' = None)"

section \<open>Scenarios\<close>

definition plain_limiter :: limiter where
  "plain_limiter =
     \<lparr>options = \<lparr>opt_rate = None, opt_interval = None, opt_algorithm = None,
                  opt_client_identifier = None, opt_endpoint_overrides = None\<rparr>,
      storage = MemoryStorage_init, algorithm = ''token_bucket'', metrics = 0\<rparr>"

definition bare_request :: request where
  "bare_request = \<lparr>client_host = None, remote_addr = None, headers = Map.empty,
                    user = None, path = None, url = None\<rparr>"

definition three_per_minute :: policy where
  "three_per_minute = \<lparr>opt_rate = Some 3, opt_interval = Some ''minute'', opt_algorithm = None\<rparr>"

definition corrupt_bucket :: memory_storage where
  "corrupt_bucket = \<lparr>data = [''tb:ip:1.2.3.4'' \<mapsto> Text ''abc''], expirations = Map.empty\<rparr>"

definition corrupt_window :: memory_storage where
  "corrupt_window = \<lparr>data = [''sw:ip:1.2.3.4:60'' \<mapsto> Text ''abc''], expirations = Map.empty\<rparr>"

definition empty_heap :: heap where
  "empty_heap = \<lparr>cells = (\<lambda>a. \<lparr>requests_total = 0, throttled_total = 0\<rparr>), next_addr = 0\<rparr>"

definition override_options :: limiter_options where
  "override_options =
     \<lparr>opt_rate = Some 10, opt_interval = Some ''minute'', opt_algorithm = None,
      opt_client_identifier = None,
      opt_endpoint_overrides =
        Some [''/api'' \<mapsto> \<lparr>opt_rate = Some 3, opt_interval = Some ''minute'',
                               opt_algorithm = Some ''sliding_window''\<rparr>]\<rparr>"

definition api_request :: request where
  "api_request = \<lparr>client_host = Some ''1.2.3.4'', remote_addr = None, headers = Map.empty,
                   user = None, path = Some ''/api'', url = None\<rparr>"




definition key_request :: "string \<Rightarrow> request" where
  "key_request k = \<lparr>client_host = Some ''1.2.3.4'', remote_addr = None,
                     headers = [''x-api-key'' \<mapsto> k], user = None, path = Some ''/'', url = None\<rparr>"


section \<open>Operations of a limiter instance\<close>

text \<open>
  The public operations of a limiter, as steps on the limiter and the heap. \<open>denied\<close> says
  that a check returned a decision and the decision is a refusal.
\<close>

definition denied :: "error + decision \<Rightarrow> bool" where
  "denied r = (case r of Inl e \<Rightarrow> False | Inr d \<Rightarrow> \<not> allowed d)"

definition counters :: "limiter \<times> heap \<Rightarrow> metrics_dict" where
  "counters st = cells (snd st) (metrics (fst st))"

datatype op =
    Check request "policy option" "nat \<Rightarrow> real"
  | Reset string "policy option" "nat \<Rightarrow> real"
  | GetMetrics

fun step :: "limiter \<times> heap \<Rightarrow> op \<Rightarrow> limiter \<times> heap" where
  "step (self, h) (Check req opts clk) = fst (RateLimiter_check self h req opts clk)"
| "step (self, h) (Reset identifier opts clk) = (fst (RateLimiter_reset self identifier opts clk), h)"
| "step (self, h) GetMetrics = (self, snd (RateLimiter_get_metrics self h))"

definition run :: "limiter \<times> heap \<Rightarrow> op list \<Rightarrow> limiter \<times> heap" where
  "run st ops = foldl step st ops"

section \<open>The counting rules in the words of the specification\<close>

text \<open>
  The sliding window's weighted count and the token bucket's refilled token count, as the
  specification states them; the theorems below compare the code with them.
\<close>

definition window_position :: "int \<Rightarrow> int \<Rightarrow> real" where
  "window_position now interval_seconds = of_int (now mod interval_seconds) / of_int interval_seconds"

definition weighted_count :: "int \<Rightarrow> int \<Rightarrow> int \<Rightarrow> int \<Rightarrow> real" where
  "weighted_count current_count previous_count now interval_seconds =
     of_int current_count + of_int previous_count * (1 - window_position now interval_seconds)"




section \<open>Reading digits\<close>

text \<open>The number that a string of digits spells, after the digits already read.\<close>

definition digits_value :: "nat \<Rightarrow> string \<Rightarrow> nat" where
  "digits_value acc ds = foldl (\<lambda>a c. 10 * a + digit_val c) acc ds"

section \<open>Properties of the store\<close>

lemma str_int_1: "str_int 1 = ''1''"
  by (simp add: str_int_def str_nat.simps digit_char_def)

lemma set_no_ttl_data:
  "data (MemoryStorage_set s key v None t) key = Some v"
  by (simp add: MemoryStorage_set_def Let_def)

lemma set_no_ttl_expirations:
  "expirations (MemoryStorage_set s key v None t) key = None"
  by (auto simp: MemoryStorage_set_def Let_def)


lemma get_unexpired:
  "data s key = Some v \<Longrightarrow> expirations s key = None \<Longrightarrow> MemoryStorage_get s key t = (Some v, s)"
  by (simp add: MemoryStorage_get_def)

lemma incr_stored:
  "data (snd (MemoryStorage_incr s key t)) key = Some (Text (str_int (fst (MemoryStorage_incr s key t))))"
  by (simp add: MemoryStorage_incr_def set_no_ttl_data str_int_1 Let_def
           split: prod.splits option.splits)

lemma incr_no_expiry:
  "expirations (snd (MemoryStorage_incr s key t)) key = None"
  by (simp add: MemoryStorage_incr_def set_no_ttl_expirations Let_def
           split: prod.splits option.splits)

lemma expirations_in_data:
  assumes "dom (expirations s) \<subseteq> dom (data s)"
  shows "dom (expirations (snd (MemoryStorage_get s key t)))
           \<subseteq> dom (data (snd (MemoryStorage_get s key t)))"
    and "dom (expirations (MemoryStorage_set s key v ttl t))
           \<subseteq> dom (data (MemoryStorage_set s key v ttl t))"
    and "dom (expirations (snd (MemoryStorage_expire s key n t)))
           \<subseteq> dom (data (snd (MemoryStorage_expire s key n t)))"
    and "dom (expirations (snd (MemoryStorage_delete s key)))
           \<subseteq> dom (data (snd (MemoryStorage_delete s key)))"
    and "dom (expirations (clean_expired_keys s t)) \<subseteq> dom (data (clean_expired_keys s t))"
  using assms
  by (auto simp: MemoryStorage_get_def MemoryStorage_set_def MemoryStorage_expire_def
        MemoryStorage_delete_def clean_expired_keys_def Let_def
      split: option.splits if_splits)
     blast+

lemma expirations_in_data_incr:
  assumes "dom (expirations s) \<subseteq> dom (data s)"
  shows "dom (expirations (snd (MemoryStorage_incr s key t)))
           \<subseteq> dom (data (snd (MemoryStorage_incr s key t)))"
proof -
  obtain r s1 where g: "MemoryStorage_get s key t = (r, s1)"
    by (cases "MemoryStorage_get s key t")
  with expirations_in_data(1) [OF assms, of key t]
  have "dom (expirations s1) \<subseteq> dom (data s1)"
    by simp
  from expirations_in_data(2) [OF this] g show ?thesis
    by (simp add: MemoryStorage_incr_def Let_def split: option.splits)
qed

lemma clean_keeps_unexpiring:
  "expirations s key = None \<Longrightarrow> data (clean_expired_keys s t) key = data s key"
  by (simp add: clean_expired_keys_def)

text \<open>
  C10. In the in-process store, \<open>incr\<close> writes the new value through \<open>set\<close> without a TTL,
  which removes the key's expiration: after \<open>incr\<close> the key has no expiration, whatever it
  had before, a \<open>get\<close> at any later time returns the incremented counter, and a pass of
  the background task at any time leaves it in place.
\<close>

theorem incr_removes_expiration:
  "expirations (snd (MemoryStorage_incr s key t)) key = None \<and>
   (\<forall>t'. MemoryStorage_get (snd (MemoryStorage_incr s key t)) key t' =
      (Some (Text (str_int (fst (MemoryStorage_incr s key t)))), snd (MemoryStorage_incr s key t))) \<and>
   (\<forall>t'. data (clean_expired_keys (snd (MemoryStorage_incr s key t)) t') key =
      Some (Text (str_int (fst (MemoryStorage_incr s key t)))))"
  using incr_stored [of s key t] incr_no_expiry [of s key t]
  by (simp add: get_unexpired clean_keeps_unexpiring)

theorem incr_removes_expiration_witness:
  "expirations \<lparr>data = [''k'' \<mapsto> Text ''4''], expirations = [''k'' \<mapsto> 100]\<rparr> ''k'' = Some 100 \<and>
   fst (MemoryStorage_incr \<lparr>data = [''k'' \<mapsto> Text ''4''], expirations = [''k'' \<mapsto> 100]\<rparr> ''k'' 50) = 5 \<and>
   expirations (snd (MemoryStorage_incr
      \<lparr>data = [''k'' \<mapsto> Text ''4''], expirations = [''k'' \<mapsto> 100]\<rparr> ''k'' 50)) ''k'' = None \<and>
   fst (MemoryStorage_get (snd (MemoryStorage_incr
      \<lparr>data = [''k'' \<mapsto> Text ''4''], expirations = [''k'' \<mapsto> 100]\<rparr> ''k'' 50)) ''k'' 1000)
     = Some (Text ''5'')"
proof -
  let ?s = "\<lparr>data = [''k'' \<mapsto> Text ''4''], expirations = [''k'' \<mapsto> 100]\<rparr>"
  have five: "fst (MemoryStorage_incr ?s ''k'' 50) = 5"
    by (simp add: MemoryStorage_incr_def MemoryStorage_get_def int_str.simps unsigned_def
          strip_def is_space_def is_digit_def digit_val_def)
  have "str_int 5 = ''5''"
    by (simp add: str_int_def str_nat.simps digit_char_def)
  with five incr_removes_expiration [of ?s "''k''" 50] show ?thesis
    by simp
qed

section \<open>Properties of the interval table\<close>

text \<open>
  C8, as amended. The conversion lower-cases its argument before it compares, so a name
  in another letter case is recognised (\<open>HOUR\<close> is an hour, not the default). Every ASCII
  string whose lower-case form is none of the six names gives 60 seconds.
\<close>

theorem get_interval_in_seconds_default:
  "ascii interval \<Longrightarrow>
   lower interval \<notin> {''second'', ''minute'', ''hour'', ''day'', ''week'', ''month''} \<Longrightarrow>
   get_interval_in_seconds interval = 60"
  by (simp add: get_interval_in_seconds_def)

theorem get_interval_in_seconds_default_witness:
  "ascii ''Fortnight'' \<and>
   lower ''Fortnight'' \<notin> {''second'', ''minute'', ''hour'', ''day'', ''week'', ''month''} \<and>
   get_interval_in_seconds ''Fortnight'' = 60"
proof -
  have a: "ascii ''Fortnight''"
    by (simp add: ascii_def)
  have b: "lower ''Fortnight'' \<notin> {''second'', ''minute'', ''hour'', ''day'', ''week'', ''month''}"
    by (simp add: lower_def lower_char_def)
  from a b get_interval_in_seconds_default [OF a b] show ?thesis
    by simp
qed

theorem get_interval_in_seconds_case_counterexample:
  "''HOUR'' \<notin> {''second'', ''minute'', ''hour'', ''day'', ''week'', ''month''} \<and>
   get_interval_in_seconds ''HOUR'' \<noteq> 60"
  by (simp add: get_interval_in_seconds_def lower_def lower_char_def)

section \<open>Identity resolution\<close>

text \<open>
  C6, as amended. The identifier is \<open>user:\<close> and the user id when identity by user is
  configured and the request has a truthy id; else \<open>apikey:\<close> and the API key when the
  header is present and not empty; else \<open>ip:\<close> and the source address. With no signal at
  all the address part falls back to \<open>unknown\<close>, so the identifier is \<open>ip:unknown\<close>, never
  the bare text \<open>unknown\<close>.
\<close>

theorem get_client_identifier_priority:
  "RateLimiter_get_client_identifier self req =
     (case user_signal self req of
        Some u \<Rightarrow> ''user:'' @ id_str u
      | None \<Rightarrow>
          (case api_key_signal req of
             Some k \<Rightarrow> ''apikey:'' @ k
           | None \<Rightarrow> ''ip:'' @ ci_ip (normalize_client_info req))) \<and>
   (no_signal self req \<longrightarrow> RateLimiter_get_client_identifier self req = ''ip:unknown'')"
  by (auto simp: RateLimiter_get_client_identifier_def user_signal_def api_key_signal_def
        no_signal_def normalize_client_info_def header_ip_def Let_def
      split: option.splits if_splits)

theorem get_client_identifier_priority_witness:
  "no_signal plain_limiter bare_request \<and>
   RateLimiter_get_client_identifier plain_limiter bare_request = ''ip:unknown''"
proof -
  have ns: "no_signal plain_limiter bare_request"
    by (simp add: no_signal_def user_signal_def api_key_signal_def plain_limiter_def
          bare_request_def)
  with get_client_identifier_priority [of plain_limiter bare_request] show ?thesis
    by blast
qed

theorem get_client_identifier_unknown_counterexample:
  "no_signal plain_limiter bare_request \<and>
   RateLimiter_get_client_identifier plain_limiter bare_request \<noteq> ''unknown''"
  by (simp add: no_signal_def user_signal_def api_key_signal_def plain_limiter_def
        bare_request_def RateLimiter_get_client_identifier_def normalize_client_info_def
        header_ip_def)

section \<open>Texts that do not parse\<close>

lemma int_str_abc: "int_str (Text ''abc'') = None"
  by (simp add: int_str.simps unsigned_def strip_def is_space_def is_digit_def)

lemma float_str_abc: "float_str (Text ''abc'') = Inl ValueError"
  by (simp add: float_str.simps unsigned_def strip_def is_space_def is_digit_def lower_def
        lower_char_def is_e_def mantissa_def)

lemma str_int_60: "str_int 60 = ''60''"
  by (simp add: str_int_def str_nat.simps digit_char_def)

lemma corrupt_bucket_state:
  "TokenBucket_get_bucket_state corrupt_bucket ''tb:ip:1.2.3.4'' ''tb:ip:1.2.3.4:last'' r clk
     = (corrupt_bucket, Inl ValueError)"
  by (simp add: TokenBucket_get_bucket_state_def MemoryStorage_get_def corrupt_bucket_def
        float_str_abc)

section \<open>Dispatch\<close>

lemma check_dispatch:
  "snd (RateLimiter_check self h req opts clk) =
     snd (if algorithm self = ''sliding_window''
          then SlidingWindow_check (storage self) (RateLimiter_get_client_identifier self req)
                 (effective_options self (ci_path (normalize_client_info req)) opts) clk
          else TokenBucket_check (storage self) (RateLimiter_get_client_identifier self req)
                 (effective_options self (ci_path (normalize_client_info req)) opts) clk)"
  by (simp add: RateLimiter_check_def Let_def split: prod.splits sum.splits)

lemma tb_fresh:
  "TokenBucket_check MemoryStorage_init ''ip:1.2.3.4''
     \<lparr>opt_rate = Some 3, opt_interval = Some ''minute'', opt_algorithm = a\<rparr> (\<lambda>i. 90)
   = (\<lparr>data = [''tb:ip:1.2.3.4'' \<mapsto> FloatRepr 2, ''tb:ip:1.2.3.4:last'' \<mapsto> Text ''90000''],
       expirations = [''tb:ip:1.2.3.4'' \<mapsto> 150, ''tb:ip:1.2.3.4:last'' \<mapsto> 150]\<rparr>,
      Inr \<lparr>allowed = True, limit = 3, remaining = 2, reset = 20, retry_after = 0\<rparr>)"
proof -
  have k: "str_int 90000 = ''90000''"
    by (simp add: str_int_def str_nat.simps digit_char_def)
  have st: "TokenBucket_get_bucket_state MemoryStorage_init ''tb:ip:1.2.3.4''
              ''tb:ip:1.2.3.4:last'' 3 (\<lambda>i. 90) = (MemoryStorage_init, Inr (3, 90000))"
    by (simp add: TokenBucket_get_bucket_state_def MemoryStorage_get_def MemoryStorage_init_def
          int_of_float_def)
  show ?thesis
    by (simp add: TokenBucket_check_def get_rate_def get_interval_def get_interval_in_seconds_def
          lower_def lower_char_def st [unfolded MemoryStorage_init_def] Let_def py_min_def
          int_of_float_def
          TokenBucket_store_bucket_state_def MemoryStorage_set_def MemoryStorage_init_def k)
qed

lemma sw_fresh:
  "SlidingWindow_check MemoryStorage_init ''ip:1.2.3.4''
     \<lparr>opt_rate = Some 3, opt_interval = Some ''minute'', opt_algorithm = a\<rparr> (\<lambda>i. 90)
   = (\<lparr>data = [''sw:ip:1.2.3.4:60'' \<mapsto> Text ''1''],
       expirations = [''sw:ip:1.2.3.4:60'' \<mapsto> 210]\<rparr>,
      Inr \<lparr>allowed = True, limit = 3, remaining = 2, reset = 30, retry_after = 0\<rparr>)"
proof -
  have k0: "str_int 0 = ''0''"
    by (simp add: str_int_def str_nat.simps digit_char_def)
  have z: "int_str (Text ''0'') = Some 0"
    by (simp add: int_str.simps unsigned_def strip_def is_space_def is_digit_def digit_val_def)
  have c: "SlidingWindow_get_window_counts MemoryStorage_init ''sw:ip:1.2.3.4:60''
             ''sw:ip:1.2.3.4:0'' (\<lambda>i. 90) = (MemoryStorage_init, Inr (0, 0))"
    by (simp add: SlidingWindow_get_window_counts_def MemoryStorage_get_def MemoryStorage_init_def)
  have i: "MemoryStorage_incr MemoryStorage_init ''sw:ip:1.2.3.4:60'' 90
             = (1, \<lparr>data = [''sw:ip:1.2.3.4:60'' \<mapsto> Text ''1''], expirations = Map.empty\<rparr>)"
    by (simp add: MemoryStorage_incr_def MemoryStorage_get_def MemoryStorage_init_def z
          MemoryStorage_set_def str_int_1)
  show ?thesis
    by (simp add: SlidingWindow_check_def get_rate_def get_interval_def
          get_interval_in_seconds_def lower_def lower_char_def int_of_float_def str_int_60 k0
          c [unfolded MemoryStorage_init_def] i [unfolded MemoryStorage_init_def] Let_def
          MemoryStorage_expire_def MemoryStorage_init_def)
qed

lemma override_effective:
  "effective_options (fst (RateLimiter_init override_options empty_heap)) ''/api'' None
     = \<lparr>opt_rate = Some 3, opt_interval = Some ''minute'',
        opt_algorithm = Some ''sliding_window''\<rparr>"
  by (simp add: effective_options_def RateLimiter_init_def override_options_def alloc_def)

lemma override_check:
  "RateLimiter_check (fst (RateLimiter_init override_options empty_heap))
     (snd (RateLimiter_init override_options empty_heap)) api_request None (\<lambda>i. 90)
   = ((fst (RateLimiter_init override_options empty_heap)
        \<lparr>storage := \<lparr>data = [''tb:ip:1.2.3.4'' \<mapsto> FloatRepr 2,
                                ''tb:ip:1.2.3.4:last'' \<mapsto> Text ''90000''],
                       expirations = [''tb:ip:1.2.3.4'' \<mapsto> 150,
                                      ''tb:ip:1.2.3.4:last'' \<mapsto> 150]\<rparr>\<rparr>,
       \<lparr>cells = (\<lambda>a. \<lparr>requests_total = 0, throttled_total = 0\<rparr>)
                  (0 := \<lparr>requests_total = 1, throttled_total = 0\<rparr>),
        next_addr = 1\<rparr>),
      Inr \<lparr>allowed = True, limit = 3, remaining = 2, reset = 20, retry_after = 0\<rparr>)"
proof -
  let ?L = "fst (RateLimiter_init override_options empty_heap)"
  let ?H = "snd (RateLimiter_init override_options empty_heap)"
  have alg: "algorithm ?L = ''token_bucket''" and sto: "storage ?L = MemoryStorage_init"
    and met: "metrics ?L = 0"
    by (simp_all add: RateLimiter_init_def override_options_def alloc_def empty_heap_def)
  have hp: "?H = \<lparr>cells = (\<lambda>a. \<lparr>requests_total = 0, throttled_total = 0\<rparr>), next_addr = 1\<rparr>"
    by (simp add: RateLimiter_init_def alloc_def empty_heap_def fun_eq_iff)
  have ident: "RateLimiter_get_client_identifier ?L api_request = ''ip:1.2.3.4''"
    by (simp add: RateLimiter_get_client_identifier_def normalize_client_info_def
          api_request_def)
  have pth: "ci_path (normalize_client_info api_request) = ''/api''"
    by (simp add: normalize_client_info_def api_request_def)
  show ?thesis
    by (simp add: RateLimiter_check_def ident pth alg sto met hp override_effective tb_fresh
          Let_def)
qed

text \<open>
  C1. A limiter built with the default algorithm (token bucket) and an override for the
  route \<open>/api\<close> whose policy names \<open>sliding_window\<close>: the effective policy of a request
  to \<open>/api\<close> names the sliding window, yet \<open>check\<close> answers with the token bucket's
  decision (reset after 20 seconds) and writes the token bucket's keys; the sliding window
  would have answered with a reset after 30 seconds. \<open>check\<close> selects the algorithm by the
  limiter's \<open>algorithm\<close> attribute alone.
\<close>

theorem check_ignores_override_algorithm:
  "opt_algorithm (effective_options (fst (RateLimiter_init override_options empty_heap))
                    ''/api'' None) = Some ''sliding_window'' \<and>
   snd (RateLimiter_check (fst (RateLimiter_init override_options empty_heap))
          (snd (RateLimiter_init override_options empty_heap)) api_request None (\<lambda>i. 90))
     = Inr \<lparr>allowed = True, limit = 3, remaining = 2, reset = 20, retry_after = 0\<rparr> \<and>
   snd (SlidingWindow_check MemoryStorage_init ''ip:1.2.3.4''
          (effective_options (fst (RateLimiter_init override_options empty_heap)) ''/api'' None)
          (\<lambda>i. 90))
     = Inr \<lparr>allowed = True, limit = 3, remaining = 2, reset = 30, retry_after = 0\<rparr> \<and>
   data (storage (fst (fst (RateLimiter_check (fst (RateLimiter_init override_options empty_heap))
          (snd (RateLimiter_init override_options empty_heap)) api_request None (\<lambda>i. 90)))))
      ''sw:ip:1.2.3.4:60'' = None"
  by (simp add: override_effective override_check sw_fresh)

section \<open>Metrics\<close>

lemma check_metrics:
  assumes "RateLimiter_check self h req opts clk = ((self', h'), r)"
  shows "metrics self' = metrics self" and "next_addr h' = next_addr h"
    and "requests_total (cells h' (metrics self)) = requests_total (cells h (metrics self)) + 1"
    and "throttled_total (cells h' (metrics self))
           = throttled_total (cells h (metrics self)) + (if denied r then 1 else 0)"
  using assms
  by (auto simp: RateLimiter_check_def Let_def denied_def split: prod.splits sum.splits if_splits)

lemma step_check:
  "requests_total (counters (step (self, h) (Check req opts clk)))
     = requests_total (counters (self, h)) + 1 \<and>
   throttled_total (counters (step (self, h) (Check req opts clk)))
     = throttled_total (counters (self, h))
       + (if denied (snd (RateLimiter_check self h req opts clk)) then 1 else 0) \<and>
   metrics (fst (step (self, h) (Check req opts clk))) = metrics self \<and>
   next_addr (snd (step (self, h) (Check req opts clk))) = next_addr h"
proof -
  obtain self' h' r where c: "RateLimiter_check self h req opts clk = ((self', h'), r)"
    by (metis surj_pair)
  from check_metrics [OF c] c show ?thesis
    by (simp add: counters_def)
qed

lemma reset_metrics: "metrics (fst (RateLimiter_reset self identifier opts clk)) = metrics self"
  by (simp add: RateLimiter_reset_def Let_def split: prod.splits)

lemma step_reset:
  "counters (step (self, h) (Reset identifier opts clk)) = counters (self, h) \<and>
   metrics (fst (step (self, h) (Reset identifier opts clk))) = metrics self \<and>
   next_addr (snd (step (self, h) (Reset identifier opts clk))) = next_addr h"
  by (simp add: counters_def reset_metrics)

lemma get_metrics_copy:
  "cells (snd (RateLimiter_get_metrics self h)) (fst (RateLimiter_get_metrics self h))
     = cells h (metrics self) \<and>
   fst (RateLimiter_get_metrics self h) = next_addr h \<and>
   next_addr (snd (RateLimiter_get_metrics self h)) = Suc (next_addr h) \<and>
   (\<forall>a. a \<noteq> next_addr h \<longrightarrow> cells (snd (RateLimiter_get_metrics self h)) a = cells h a)"
  by (simp add: RateLimiter_get_metrics_def alloc_def)

lemma step_get_metrics:
  "metrics self < next_addr h \<Longrightarrow>
   counters (step (self, h) GetMetrics) = counters (self, h) \<and>
   metrics (fst (step (self, h) GetMetrics)) = metrics self \<and>
   next_addr (snd (step (self, h) GetMetrics)) = Suc (next_addr h)"
  using get_metrics_copy [of self h] by (simp add: counters_def)

lemma step_invariant:
  assumes "metrics (fst st) < next_addr (snd st)"
  shows "metrics (fst (step st x)) < next_addr (snd (step st x)) \<and>
         requests_total (counters st) \<le> requests_total (counters (step st x)) \<and>
         throttled_total (counters st) \<le> throttled_total (counters (step st x))"
proof (cases st)
  case (Pair self h)
  with assms have live: "metrics self < next_addr h" by simp
  show ?thesis
  proof (cases x)
    case (Check req opts clk)
    with Pair live step_check [of self h req opts clk] show ?thesis by simp
  next
    case (Reset ident opts clk)
    with Pair live step_reset [of self h ident opts clk] show ?thesis by simp
  next
    case GetMetrics
    with Pair live step_get_metrics [OF live] show ?thesis by simp
  qed
qed

lemma run_invariant:
  "metrics (fst st) < next_addr (snd st) \<Longrightarrow>
   metrics (fst (run st ops)) < next_addr (snd (run st ops)) \<and>
   requests_total (counters st) \<le> requests_total (counters (run st ops)) \<and>
   throttled_total (counters st) \<le> throttled_total (counters (run st ops))"
proof (induction ops arbitrary: st)
  case Nil
  then show ?case by (simp add: run_def)
next
  case (Cons x xs)
  from step_invariant [OF Cons.prems, of x]
  have s: "metrics (fst (step st x)) < next_addr (snd (step st x))"
    and r: "requests_total (counters st) \<le> requests_total (counters (step st x))"
    and t: "throttled_total (counters st) \<le> throttled_total (counters (step st x))"
    by simp_all
  from Cons.IH [OF s] r t show ?case
    by (simp add: run_def)
qed

text \<open>
  C9. For a limiter whose metrics dictionary is an allocated object: a check adds exactly
  one to \<open>requests_total\<close>, also when the algorithm raises, and adds one to
  \<open>throttled_total\<close> exactly when it returns a refusal; \<open>reset\<close> leaves the counters
  alone; \<open>get_metrics\<close> returns a new object with the same entries, at an address that is
  not the limiter's own dictionary, so that whatever the caller writes there leaves the
  limiter's counters as they are; and over any sequence of checks, resets and
  \<open>get_metrics\<close> calls neither counter ever decreases.
\<close>

theorem metrics_monotone:
  assumes "metrics self < next_addr h"
  shows
    "requests_total (counters (step (self, h) (Check req opts clk)))
       = requests_total (counters (self, h)) + 1 \<and>
     throttled_total (counters (step (self, h) (Check req opts clk)))
       = throttled_total (counters (self, h))
         + (if denied (snd (RateLimiter_check self h req opts clk)) then 1 else 0) \<and>
     counters (step (self, h) (Reset ident opts' clk')) = counters (self, h) \<and>
     counters (step (self, h) GetMetrics) = counters (self, h) \<and>
     fst (RateLimiter_get_metrics self h) \<noteq> metrics self \<and>
     cells (snd (RateLimiter_get_metrics self h)) (fst (RateLimiter_get_metrics self h))
       = cells h (metrics self) \<and>
     (\<forall>d. cells ((snd (RateLimiter_get_metrics self h))
               \<lparr>cells := (cells (snd (RateLimiter_get_metrics self h)))
                            (fst (RateLimiter_get_metrics self h) := d)\<rparr>) (metrics self)
           = cells h (metrics self)) \<and>
     requests_total (counters (self, h)) \<le> requests_total (counters (run (self, h) ops)) \<and>
     throttled_total (counters (self, h)) \<le> throttled_total (counters (run (self, h) ops))"
proof -
  from assms have live: "metrics (fst (self, h)) < next_addr (snd (self, h))"
    by simp
  have addr: "fst (RateLimiter_get_metrics self h) = next_addr h"
    by (simp add: RateLimiter_get_metrics_def alloc_def)
  have copy: "fst (RateLimiter_get_metrics self h) \<noteq> metrics self"
    using assms addr by simp
  have same: "cells (snd (RateLimiter_get_metrics self h)) (fst (RateLimiter_get_metrics self h))
                = cells h (metrics self)"
    by (simp add: RateLimiter_get_metrics_def alloc_def)
  have frame: "cells ((snd (RateLimiter_get_metrics self h))
                 \<lparr>cells := (cells (snd (RateLimiter_get_metrics self h)))
                              (fst (RateLimiter_get_metrics self h) := d)\<rparr>) (metrics self)
               = cells h (metrics self)" for d
    using assms by (simp add: RateLimiter_get_metrics_def alloc_def)
  have chk: "requests_total (counters (step (self, h) (Check req opts clk)))
       = requests_total (counters (self, h)) + 1"
    and thr: "throttled_total (counters (step (self, h) (Check req opts clk)))
       = throttled_total (counters (self, h))
         + (if denied (snd (RateLimiter_check self h req opts clk)) then 1 else 0)"
    using step_check [of self h req opts clk] by blast+
  have rst: "counters (step (self, h) (Reset ident opts' clk')) = counters (self, h)"
    using step_reset [of self h ident opts' clk'] by blast
  have gm: "counters (step (self, h) GetMetrics) = counters (self, h)"
    using step_get_metrics [OF assms] by blast
  have mono: "requests_total (counters (self, h)) \<le> requests_total (counters (run (self, h) ops))"
    "throttled_total (counters (self, h)) \<le> throttled_total (counters (run (self, h) ops))"
    using run_invariant [OF live, of ops] by blast+
  from chk thr rst gm copy same frame mono show ?thesis
    by blast
qed

theorem metrics_monotone_witness:
  "metrics (fst (RateLimiter_init override_options empty_heap))
     < next_addr (snd (RateLimiter_init override_options empty_heap)) \<and>
   requests_total (counters (step (RateLimiter_init override_options empty_heap)
                      (Check api_request None (\<lambda>i. 90)))) = 1 \<and>
   throttled_total (counters (step (RateLimiter_init override_options empty_heap)
                      (Check api_request None (\<lambda>i. 90)))) = 0 \<and>
   fst (RateLimiter_get_metrics (fst (RateLimiter_init override_options empty_heap))
          (snd (RateLimiter_init override_options empty_heap))) = 1 \<and>
   0 \<le> requests_total (counters (run (RateLimiter_init override_options empty_heap)
                         [Check api_request None (\<lambda>i. 90), GetMetrics,
                          Reset ''ip:1.2.3.4'' None (\<lambda>i. 91)]))"
proof -
  let ?L = "fst (RateLimiter_init override_options empty_heap)"
  let ?H = "snd (RateLimiter_init override_options empty_heap)"
  have live: "metrics ?L < next_addr ?H"
    by (simp add: RateLimiter_init_def alloc_def empty_heap_def)
  have zero: "counters (?L, ?H) = \<lparr>requests_total = 0, throttled_total = 0\<rparr>"
    by (simp add: counters_def RateLimiter_init_def alloc_def empty_heap_def)
  have nd: "\<not> denied (snd (RateLimiter_check ?L ?H api_request None (\<lambda>i. 90)))"
    by (simp add: override_check denied_def)
  have addr: "fst (RateLimiter_get_metrics ?L ?H) = 1"
    by (simp add: RateLimiter_get_metrics_def RateLimiter_init_def alloc_def empty_heap_def)
  from metrics_monotone [OF live, of api_request None "\<lambda>i. 90" "''ip:1.2.3.4''" None "\<lambda>i. 91"
      "[Check api_request None (\<lambda>i. 90), GetMetrics, Reset ''ip:1.2.3.4'' None (\<lambda>i. 91)]"]
    live zero nd addr
  show ?thesis
    by simp
qed

section \<open>The sliding window\<close>









section \<open>Texts of numbers\<close>

text \<open>
  What \<open>str\<close> writes, \<open>int()\<close> and \<open>float()\<close> read back: the counters and the
  token count survive the trip through the store.
\<close>

lemma digit_char_props:
  assumes "d < 10"
  shows "is_digit (digit_char d)" and "digit_val (digit_char d) = d"
proof -
  from assms have "d \<in> {0, 1, 2, 3, 4, 5, 6, 7, 8, 9}"
    by auto
  then show "is_digit (digit_char d)" and "digit_val (digit_char d) = d"
    by (auto simp: digit_char_def is_digit_def digit_val_def)
qed

lemma str_nat_digits: "c \<in> set (str_nat n) \<Longrightarrow> is_digit c"
proof (induction n arbitrary: c rule: str_nat.induct)
  case (1 n)
  show ?case
  proof (cases "n < 10")
    case True
    with "1.prems" show ?thesis
      by (simp add: str_nat.simps [of n] digit_char_props)
  next
    case False
    with "1.prems" "1.IH" show ?thesis
      by (auto simp: str_nat.simps [of n] digit_char_props)
  qed
qed

lemma str_nat_nonempty: "str_nat n \<noteq> []"
  by (simp add: str_nat.simps [of n])


lemma digitpart_digits:
  "(\<And>c. c \<in> set ds \<Longrightarrow> is_digit c) \<Longrightarrow> ds \<noteq> [] \<or> prev \<Longrightarrow>
   digitpart ds acc k prev = Some (digits_value acc ds, k + length ds)"
  by (induction ds arbitrary: acc k prev) (auto simp: digits_value_def)

lemma digits_value_str_nat: "digits_value 0 (str_nat n) = n"
proof (induction n rule: str_nat.induct)
  case (1 n)
  show ?case
  proof (cases "n < 10")
    case True
    then show ?thesis
      by (simp add: str_nat.simps [of n] digits_value_def digit_char_props)
  next
    case False
    with "1.IH" show ?thesis
      by (simp add: str_nat.simps [of n] digits_value_def digit_char_props)
  qed
qed

lemma digitpart_str_nat: "digitpart (str_nat n) 0 0 False = Some (n, length (str_nat n))"
  using digitpart_digits [of "str_nat n" False 0 0] str_nat_digits [of _ n] str_nat_nonempty [of n]
  by (simp add: digits_value_str_nat)

lemma digit_not_space: "is_digit c \<Longrightarrow> \<not> is_space c"
  by (auto simp: is_digit_def is_space_def)

lemma digit_not_sign: "is_digit c \<Longrightarrow> c \<noteq> CHR ''-'' \<and> c \<noteq> CHR ''+''"
  by (auto simp: is_digit_def)


lemma strip_id:
  assumes "s \<noteq> []" "\<not> is_space (hd s)" "\<not> is_space (last s)"
  shows "strip s = s"
proof -
  from assms(1,2) have a: "dropWhile is_space s = s"
    by (cases s) simp_all
  from assms(1,3) have "dropWhile is_space (rev s) = rev s"
    by (cases "rev s") (simp_all add: hd_rev [symmetric])
  with a show ?thesis
    by (simp add: strip_def)
qed

lemma str_nat_hd: "is_digit (hd (str_nat n))"
  using str_nat_digits [of "hd (str_nat n)" n] str_nat_nonempty [of n] by simp

lemma str_nat_last: "is_digit (last (str_nat n))"
  using str_nat_digits [of "last (str_nat n)" n] str_nat_nonempty [of n] by simp

lemma strip_str_int: "strip (str_int i) = str_int i"
proof (rule strip_id)
  show "str_int i \<noteq> []"
    by (simp add: str_int_def str_nat_nonempty)
  show "\<not> is_space (hd (str_int i))"
    using digit_not_space [OF str_nat_hd] by (simp add: str_int_def is_space_def)
  show "\<not> is_space (last (str_int i))"
    using digit_not_space [OF str_nat_last] by (simp add: str_int_def str_nat_nonempty)
qed

lemma unsigned_str_nat: "unsigned (str_nat n) = (False, str_nat n)"
  using digit_not_sign [OF str_nat_hd, of n] str_nat_nonempty [of n]
  by (cases "str_nat n") (simp_all add: unsigned_def)

lemma unsigned_str_int:
  "unsigned (str_int i) = (i < 0, str_nat (nat \<bar>i\<bar>))"
  by (simp add: str_int_def unsigned_str_nat) (simp add: unsigned_def)

lemma int_str_str_int: "int_str (Text (str_int i)) = Some i"
  by (simp add: int_str.simps strip_str_int unsigned_str_int digitpart_str_nat)









section \<open>The token bucket\<close>







section \<open>Bounds on a decision\<close>










lemma minute_default: "get_interval_in_seconds (get_interval empty_policy) = 60"
  by (simp add: empty_policy_def get_interval_def get_interval_in_seconds_def lower_def
        lower_char_def)









section \<open>Malformed stored state in the checks\<close>

lemma key_request_identifier:
  "k \<noteq> [] \<Longrightarrow>
   RateLimiter_get_client_identifier (plain_limiter\<lparr>storage := s\<rparr>) (key_request k)
     = ''apikey:'' @ k"
  by (simp add: RateLimiter_get_client_identifier_def normalize_client_info_def key_request_def
        plain_limiter_def)

lemma plain_effective:
  "effective_options (plain_limiter\<lparr>storage := s\<rparr>) p None = empty_policy"
  by (simp add: effective_options_def plain_limiter_def empty_policy_def policy.truncate_def)

lemma colliding_first:
  "fst (TokenBucket_check MemoryStorage_init ''apikey:k:last'' empty_policy (\<lambda>i. 90))
     = \<lparr>data = [''tb:apikey:k:last'' \<mapsto> FloatRepr 59,
                 ''tb:apikey:k:last:last'' \<mapsto> Text ''90000''],
        expirations = [''tb:apikey:k:last'' \<mapsto> 150, ''tb:apikey:k:last:last'' \<mapsto> 150]\<rparr>"
proof -
  have k: "str_int 90000 = ''90000''"
    by (simp add: str_int_def str_nat.simps digit_char_def)
  have r: "get_rate empty_policy = 60"
    by (simp add: get_rate_def empty_policy_def)
  have st: "TokenBucket_get_bucket_state \<lparr>data = Map.empty, expirations = Map.empty\<rparr>
              ''tb:apikey:k:last'' ''tb:apikey:k:last:last'' 60 (\<lambda>i. 90)
              = (\<lparr>data = Map.empty, expirations = Map.empty\<rparr>, Inr (60, 90000))"
    by (simp add: TokenBucket_get_bucket_state_def MemoryStorage_get_def int_of_float_def)
  show ?thesis
    by (simp add: TokenBucket_check_def r minute_default st Let_def py_min_def int_of_float_def
          TokenBucket_store_bucket_state_def MemoryStorage_set_def MemoryStorage_init_def k)
qed

lemma colliding_second:
  "snd (TokenBucket_check
          \<lparr>data = [''tb:apikey:k:last'' \<mapsto> FloatRepr 59,
                   ''tb:apikey:k:last:last'' \<mapsto> Text ''90000''],
           expirations = [''tb:apikey:k:last'' \<mapsto> 150, ''tb:apikey:k:last:last'' \<mapsto> 150]\<rparr>
          ''apikey:k'' empty_policy (\<lambda>i. 91)) = Inl ValueError"
  by (simp add: TokenBucket_check_def TokenBucket_get_bucket_state_def MemoryStorage_get_def
        int_str.simps Let_def)

lemma colliding_keys:
  "snd (RateLimiter_check
          (fst (fst (RateLimiter_check plain_limiter empty_heap (key_request ''k:last'') None
                       (\<lambda>i. 90))))
          (snd (fst (RateLimiter_check plain_limiter empty_heap (key_request ''k:last'') None
                       (\<lambda>i. 90))))
          (key_request ''k'') None (\<lambda>i. 91)) = Inl ValueError"
proof -
  have alg: "algorithm plain_limiter = ''token_bucket''"
    and sto: "storage plain_limiter = MemoryStorage_init"
    by (simp_all add: plain_limiter_def)
  have e0: "effective_options plain_limiter p None = empty_policy" for p
    using plain_effective [of "storage plain_limiter" p] by simp
  have i0: "RateLimiter_get_client_identifier plain_limiter (key_request ''k:last'')
              = ''apikey:k:last''"
    using key_request_identifier [of "''k:last''" "storage plain_limiter"] by simp
  have first: "fst (fst (RateLimiter_check plain_limiter empty_heap (key_request ''k:last'') None
                       (\<lambda>i. 90)))
      = plain_limiter\<lparr>storage := fst (TokenBucket_check MemoryStorage_init ''apikey:k:last''
                                          empty_policy (\<lambda>i. 90))\<rparr>"
    by (simp add: RateLimiter_check_def i0 alg sto e0 Let_def split: prod.splits sum.splits)
  show ?thesis
    unfolding first
    by (simp add: check_dispatch key_request_identifier plain_effective colliding_first
          colliding_second alg)
qed

text \<open>
  C7. A token count or a window counter that holds the text \<open>abc\<close> makes the check raise
  \<open>ValueError\<close>: the two readers call \<open>float()\<close> and \<open>int()\<close> unguarded. Only \<open>incr\<close> of
  the store recovers (it restarts the counter at 1), and the sliding window never reaches it,
  because it reads the counter first. The limiter produces such a state by itself: the
  token count of the client with the API key \<open>k:last\<close> is stored under the key where the
  client with the API key \<open>k\<close> keeps its last update, so after a request of the first the
  check of the second raises.
\<close>

theorem malformed_state_raises:
  "TokenBucket_check corrupt_bucket ''ip:1.2.3.4'' three_per_minute (\<lambda>i. 90)
     = (corrupt_bucket, Inl ValueError) \<and>
   SlidingWindow_check corrupt_window ''ip:1.2.3.4'' three_per_minute (\<lambda>i. 90)
     = (corrupt_window, Inl ValueError) \<and>
   fst (MemoryStorage_incr corrupt_window ''sw:ip:1.2.3.4:60'' 90) = 1 \<and>
   snd (RateLimiter_check
          (fst (fst (RateLimiter_check plain_limiter empty_heap (key_request ''k:last'') None
                       (\<lambda>i. 90))))
          (snd (fst (RateLimiter_check plain_limiter empty_heap (key_request ''k:last'') None
                       (\<lambda>i. 90))))
          (key_request ''k'') None (\<lambda>i. 91)) = Inl ValueError"
proof -
  have tb: "TokenBucket_check corrupt_bucket ''ip:1.2.3.4'' three_per_minute (\<lambda>i. 90)
     = (corrupt_bucket, Inl ValueError)"
    by (simp add: TokenBucket_check_def corrupt_bucket_state Let_def)
  have sw: "SlidingWindow_check corrupt_window ''ip:1.2.3.4'' three_per_minute (\<lambda>i. 90)
     = (corrupt_window, Inl ValueError)"
    by (simp add: SlidingWindow_check_def SlidingWindow_get_window_counts_def
          MemoryStorage_get_def corrupt_window_def three_per_minute_def get_interval_def
          get_interval_in_seconds_def lower_def lower_char_def int_of_float_def int_str_abc
          str_int_60 Let_def)
  have inc: "fst (MemoryStorage_incr corrupt_window ''sw:ip:1.2.3.4:60'' 90) = 1"
    by (simp add: MemoryStorage_incr_def MemoryStorage_get_def corrupt_window_def int_str_abc)
  from tb sw inc colliding_keys show ?thesis
    by simp
qed

section \<open>The token bucket on a stored state\<close>








end
